theory Spec2Isabelle
  imports Main "HOL-Library.Word"
begin

unbundle bit_operations_syntax

section \<open>Status codes, sizes and decimal rendering\<close>

text \<open>
  \<^verbatim>\<open>std::size_t\<close> is modelled as a 64-bit word (the claims speak of \<open>2^64 - 1\<close>):
  addition and subtraction wrap around.
\<close>

type_synonym size_t = "64 word"

text \<open>
  \<^verbatim>\<open>enum class shell_status : std::uint32_t\<close> of \<^verbatim>\<open>shell_status.h\<close>. The core statuses
  are numbered 0 to 28 in declaration order; the command statuses are
  \<^verbatim>\<open>SHELL_CMD_ERROR + n\<close> and are kept as \<open>SHELL_CMD_ERROR n\<close>.
\<close>

datatype shell_status =
    SHELL_SUCCESS
  | SHELL_ERROR
  | SHELL_ERROR_SYNTAX_ERROR
  | SHELL_ERROR_SYNTAX_ERROR_UNCLOSED_SIMPLE_QUOTES
  | SHELL_ERROR_SYNTAX_ERROR_UNCLOSED_DOUBLE_QUOTES
  | SHELL_ERROR_SYNTAX_ERROR_UNCLOSED_BACK_QUOTES
  | SHELL_ERROR_SYNTAX_ERROR_UNCLOSED_PARENTHESES
  | SHELL_ERROR_SYNTAX_ERROR_UNCLOSED_BRACKETS
  | SHELL_ERROR_SYNTAX_ERROR_UNCLOSED_SQR_BRACKETS
  | SHELL_ERROR_SYNTAX_ERROR_UNCLOSED_SUBCOMMAND
  | SHELL_ERROR_SYNTAX_ERROR_UNCLOSED_VARIABLE
  | SHELL_ERROR_SYNTAX_ERROR_INVALID_VARIABLE_NAME
  | SHELL_ERROR_SYNTAX_ERROR_UNEXPECTED_TOKEN
  | SHELL_ERROR_SYNTAX_ERROR_UNEXPECTED_EOF
  | SHELL_ERROR_SYNTAX_ERROR_ARG_OUT_OF_RANGE
  | SHELL_ERROR_SYNTAX_ERROR_EMPTY_BLOCK
  | SHELL_ERROR_SYNTAX_ERROR_UNFINISHED_KEYWORD_IF
  | SHELL_ERROR_SYNTAX_ERROR_MISSING_KEYWORD_THEN
  | SHELL_ERROR_SYNTAX_ERROR_UNFINISHED_KEYWORD_LOOP
  | SHELL_ERROR_SYNTAX_ERROR_UNFINISHED_KEYWORD_FOR
  | SHELL_ERROR_SYNTAX_ERROR_MISSING_KEYWORD_IN
  | SHELL_ERROR_SYNTAX_ERROR_UNFINISHED_KEYWORD_WHILE
  | SHELL_ERROR_SYNTAX_ERROR_UNFINISHED_KEYWORD_UNTIL
  | SHELL_ERROR_SYNTAX_ERROR_MISSING_KEYWORD_DO
  | SHELL_ERROR_SYNTAX_ERROR_INVALID_FUNCTION_NAME
  | SHELL_ERROR_SYNTAX_ERROR_INVALID_FUNCTION_BODY
  | SHELL_ERROR_BAD_ENCODING
  | SHELL_ERROR_COMMAND_NOT_FOUND
  | SHELL_ERROR_MAX_DEPTH_REACHED
  | SHELL_CMD_ERROR nat

text \<open>The numeric value of the enumerator, before it is stored in 32 bits.\<close>

fun status_code :: "shell_status \<Rightarrow> nat" where
  "status_code SHELL_SUCCESS = 0"
| "status_code SHELL_ERROR = 1"
| "status_code SHELL_ERROR_SYNTAX_ERROR = 2"
| "status_code SHELL_ERROR_SYNTAX_ERROR_UNCLOSED_SIMPLE_QUOTES = 3"
| "status_code SHELL_ERROR_SYNTAX_ERROR_UNCLOSED_DOUBLE_QUOTES = 4"
| "status_code SHELL_ERROR_SYNTAX_ERROR_UNCLOSED_BACK_QUOTES = 5"
| "status_code SHELL_ERROR_SYNTAX_ERROR_UNCLOSED_PARENTHESES = 6"
| "status_code SHELL_ERROR_SYNTAX_ERROR_UNCLOSED_BRACKETS = 7"
| "status_code SHELL_ERROR_SYNTAX_ERROR_UNCLOSED_SQR_BRACKETS = 8"
| "status_code SHELL_ERROR_SYNTAX_ERROR_UNCLOSED_SUBCOMMAND = 9"
| "status_code SHELL_ERROR_SYNTAX_ERROR_UNCLOSED_VARIABLE = 10"
| "status_code SHELL_ERROR_SYNTAX_ERROR_INVALID_VARIABLE_NAME = 11"
| "status_code SHELL_ERROR_SYNTAX_ERROR_UNEXPECTED_TOKEN = 12"
| "status_code SHELL_ERROR_SYNTAX_ERROR_UNEXPECTED_EOF = 13"
| "status_code SHELL_ERROR_SYNTAX_ERROR_ARG_OUT_OF_RANGE = 14"
| "status_code SHELL_ERROR_SYNTAX_ERROR_EMPTY_BLOCK = 15"
| "status_code SHELL_ERROR_SYNTAX_ERROR_UNFINISHED_KEYWORD_IF = 16"
| "status_code SHELL_ERROR_SYNTAX_ERROR_MISSING_KEYWORD_THEN = 17"
| "status_code SHELL_ERROR_SYNTAX_ERROR_UNFINISHED_KEYWORD_LOOP = 18"
| "status_code SHELL_ERROR_SYNTAX_ERROR_UNFINISHED_KEYWORD_FOR = 19"
| "status_code SHELL_ERROR_SYNTAX_ERROR_MISSING_KEYWORD_IN = 20"
| "status_code SHELL_ERROR_SYNTAX_ERROR_UNFINISHED_KEYWORD_WHILE = 21"
| "status_code SHELL_ERROR_SYNTAX_ERROR_UNFINISHED_KEYWORD_UNTIL = 22"
| "status_code SHELL_ERROR_SYNTAX_ERROR_MISSING_KEYWORD_DO = 23"
| "status_code SHELL_ERROR_SYNTAX_ERROR_INVALID_FUNCTION_NAME = 24"
| "status_code SHELL_ERROR_SYNTAX_ERROR_INVALID_FUNCTION_BODY = 25"
| "status_code SHELL_ERROR_BAD_ENCODING = 26"
| "status_code SHELL_ERROR_COMMAND_NOT_FOUND = 27"
| "status_code SHELL_ERROR_MAX_DEPTH_REACHED = 28"
| "status_code (SHELL_CMD_ERROR n) = 42 + n"

text \<open>
  \<^verbatim>\<open>static_cast<int>(nStatus)\<close>: the 32-bit unsigned value read as a signed \<^verbatim>\<open>int\<close>, so a value
  from \<open>2^31\<close> on comes out negative.
\<close>

definition status_to_int :: "shell_status \<Rightarrow> int" where
  "status_to_int nStatus = sint (word_of_nat (status_code nStatus) :: 32 word)"

text \<open>\<^verbatim>\<open>constexpr std::size_t SHELL_MAX_DEPTH = 16;\<close> (\<^verbatim>\<open>shell_status.h\<close>)\<close>

definition SHELL_MAX_DEPTH :: size_t where
  "SHELL_MAX_DEPTH = 16"

text \<open>\<^verbatim>\<open>std::to_string\<close> on an unsigned value and on a signed one.\<close>

definition digit_char :: "nat \<Rightarrow> char" where
  "digit_char d = ''0123456789'' ! d"

fun to_string_nat :: "nat \<Rightarrow> string" where
  "to_string_nat n =
     (if n < 10 then [digit_char n]
      else to_string_nat (n div 10) @ [digit_char (n mod 10)])"

declare to_string_nat.simps [simp del]

definition to_string_int :: "int \<Rightarrow> string" where
  "to_string_int i = (if i < 0 then CHR ''-'' # to_string_nat (nat (- i)) else to_string_nat (nat i))"

definition to_string_size_t :: "size_t \<Rightarrow> string" where
  "to_string_size_t n = to_string_nat (unat n)"

section \<open>The node model (\<^verbatim>\<open>shell_node.h\<close>)\<close>

text \<open>
  Every node carries the position \<^verbatim>\<open>m_nPos\<close> it was created with. A child of a command
  expression is a \<^verbatim>\<open>unique_ptr\<close> that may be \<^verbatim>\<open>nullptr\<close> (an explicit split point), hence the
  \<open>option\<close>. The else branch of an \<^verbatim>\<open>if\<close> may be \<^verbatim>\<open>nullptr\<close> too, and so may the two
  operands of an operator node, which \<^verbatim>\<open>shell_node_operator::make\<close> creates without operands
  and fills afterwards. The two indirection
  extractors (\<^verbatim>\<open>shell_node_dollar_arg_dhop\<close>, \<^verbatim>\<open>shell_node_dollar_variable_dhop\<close>) are not
  part of this development.
\<close>

datatype expandable =
    shell_node_word nat string
  | shell_node_unicode nat "32 word"
  | shell_node_str_simple nat "expandable list"
  | shell_node_str_double nat "expandable list"
  | shell_node_str_back nat evaluable
  | shell_node_arg nat size_t
  | shell_node_variable nat string
  | shell_node_dollar_variable nat string
  | shell_node_dollar_arg nat size_t
  | shell_node_dollar_command nat evaluable
  | shell_node_dollar_special nat char
  | shell_node_command_expression "expandable option list"
and evaluable =
    shell_node_null_command nat
  | shell_node_command "expandable option list"
  | shell_node_command_block nat "evaluable list"
  | shell_node_command_block_subshell nat "evaluable list"
  | shell_node_background nat evaluable
  | shell_node_and nat "evaluable option" "evaluable option"
  | shell_node_pipe nat "evaluable option" "evaluable option"
  | shell_node_or nat "evaluable option" "evaluable option"
  | shell_node_test nat expandable
  | shell_node_if nat evaluable evaluable "evaluable option"
  | shell_node_continue nat
  | shell_node_break nat
  | shell_node_for nat string expandable evaluable
  | shell_node_while nat evaluable evaluable
  | shell_node_until nat evaluable evaluable
  | shell_node_function nat expandable evaluable

subsection \<open>Operator nodes and \<^verbatim>\<open>shell_node_operator::make\<close> (\<^verbatim>\<open>shell_node.cpp\<close>)\<close>

datatype shell_node_type =
    SNT_COMMAND_EXPRESSION | SNT_STR_SIMPLE | SNT_STR_DOUBLE | SNT_STR_BACK | SNT_WORD
  | SNT_UNICODE | SNT_ARG | SNT_VARIABLE | SNT_DOLLAR_SPECIAL | SNT_DOLLAR_VARIABLE
  | SNT_DOLLAR_VARIABLE_DHOP | SNT_DOLLAR_ARG | SNT_DOLLAR_ARG_DHOP | SNT_DOLLAR_COMMAND
  | SNT_BACKGROUND | SNT_AND | SNT_PIPE | SNT_OR | SNT_IF | SNT_TEST | SNT_FOR | SNT_WHILE
  | SNT_UNTIL | SNT_BREAK | SNT_CONTINUE | SNT_FUNCTION | SNT_NULL_COMMAND | SNT_COMMAND
  | SNT_COMMAND_BLOCK | SNT_COMMAND_BLOCK_SUBSHELL

datatype shell_node_invalid_argument = shell_node_invalid_argument string

text \<open>\<^verbatim>\<open>PRIORITY_PIPE = 5\<close>, \<^verbatim>\<open>PRIORITY_AND = 4\<close>, \<^verbatim>\<open>PRIORITY_OR = 3\<close>; the constructors of the
  three operator classes store them in \<^verbatim>\<open>m_nPriority\<close>.\<close>

definition PRIORITY_PIPE :: int where "PRIORITY_PIPE = 5"
definition PRIORITY_AND :: int where "PRIORITY_AND = 4"
definition PRIORITY_OR :: int where "PRIORITY_OR = 3"

text \<open>\<^verbatim>\<open>dynamic_cast<shell_node_operator *>\<close> succeeds on the three operator classes only.\<close>

fun is_operator :: "evaluable \<Rightarrow> bool" where
  "is_operator (shell_node_and _ _ _) = True"
| "is_operator (shell_node_pipe _ _ _) = True"
| "is_operator (shell_node_or _ _ _) = True"
| "is_operator _ = False"

text \<open>The accessors below are only applied to operator nodes.\<close>

fun get_priority :: "evaluable \<Rightarrow> int" where
  "get_priority (shell_node_and _ _ _) = PRIORITY_AND"
| "get_priority (shell_node_pipe _ _ _) = PRIORITY_PIPE"
| "get_priority (shell_node_or _ _ _) = PRIORITY_OR"
| "get_priority _ = 0"

fun get_left :: "evaluable \<Rightarrow> evaluable option" where
  "get_left (shell_node_and _ l _) = l"
| "get_left (shell_node_pipe _ l _) = l"
| "get_left (shell_node_or _ l _) = l"
| "get_left _ = None"

fun get_right :: "evaluable \<Rightarrow> evaluable option" where
  "get_right (shell_node_and _ _ r) = r"
| "get_right (shell_node_pipe _ _ r) = r"
| "get_right (shell_node_or _ _ r) = r"
| "get_right _ = None"

text \<open>Assignment to \<^verbatim>\<open>m_pLeft\<close> and to \<^verbatim>\<open>m_pRight\<close>: the \<^verbatim>\<open>unique_ptr\<close> that was there is
  released, and the subtree it owned with it.\<close>

fun set_left :: "evaluable \<Rightarrow> evaluable option \<Rightarrow> evaluable" where
  "set_left (shell_node_and p _ r) l = shell_node_and p l r"
| "set_left (shell_node_pipe p _ r) l = shell_node_pipe p l r"
| "set_left (shell_node_or p _ r) l = shell_node_or p l r"
| "set_left n _ = n"

fun set_right :: "evaluable \<Rightarrow> evaluable option \<Rightarrow> evaluable" where
  "set_right (shell_node_and p l _) r = shell_node_and p l r"
| "set_right (shell_node_pipe p l _) r = shell_node_pipe p l r"
| "set_right (shell_node_or p l _) r = shell_node_or p l r"
| "set_right n _ = n"

text \<open>The \<^verbatim>\<open>switch (nType)\<close> that constructs the central node without operands.\<close>

fun new_operator :: "shell_node_type \<Rightarrow> nat \<Rightarrow> shell_node_invalid_argument + evaluable" where
  "new_operator SNT_AND nPos = Inr (shell_node_and nPos None None)"
| "new_operator SNT_OR nPos = Inr (shell_node_or nPos None None)"
| "new_operator SNT_PIPE nPos = Inr (shell_node_pipe nPos None None)"
| "new_operator _ nPos = Inl (shell_node_invalid_argument ''Node type must be an operator'')"

text \<open>
  The left phase. \<open>pCentral\<close> is the node \<^verbatim>\<open>pCentralOpp\<close> points to. In the rotation the new
  node takes \<^verbatim>\<open>pLeftOpp->m_pRight\<close> as its left operand and is stored in
  \<^verbatim>\<open>pLeftOpp->m_pRight\<close>, and \<^verbatim>\<open>pCentralOpp = pLeftOpp\<close> makes the left node the central one.
\<close>

definition make_left_phase :: "evaluable \<Rightarrow> evaluable \<Rightarrow> evaluable" where
  "make_left_phase pCentral pLeft =
     (if \<not> is_operator pLeft then set_left pCentral (Some pLeft)
      else if get_priority pLeft \<ge> get_priority pCentral then set_left pCentral (Some pLeft)
      else set_right pLeft (Some (set_left pCentral (get_right pLeft))))"

text \<open>
  The right phase, on the node \<^verbatim>\<open>pCentralOpp\<close> points to after the left phase, with
  \<^verbatim>\<open>nCentralPriority\<close> its priority.
\<close>

definition make_right_phase :: "evaluable \<Rightarrow> evaluable \<Rightarrow> evaluable" where
  "make_right_phase pCentral pRight =
     (if \<not> is_operator pRight then set_right pCentral (Some pRight)
      else if get_priority pRight < get_priority pCentral then set_right pCentral (Some pRight)
      else set_left pRight (Some (set_right pCentral (get_left pRight))))"

definition shell_node_operator_make ::
  "shell_node_type \<Rightarrow> nat \<Rightarrow> evaluable option \<Rightarrow> evaluable option
     \<Rightarrow> shell_node_invalid_argument + evaluable" where
  "shell_node_operator_make nType nPos pLeft pRight =
     (case pLeft of
        None \<Rightarrow> Inl (shell_node_invalid_argument ''Left subnode can not be null'')
      | Some left \<Rightarrow>
     (case pRight of
        None \<Rightarrow> Inl (shell_node_invalid_argument ''Right subnode can not be null'')
      | Some right \<Rightarrow>
     (case new_operator nType nPos of
        Inl e \<Rightarrow> Inl e
      | Inr pCentral \<Rightarrow> Inr (make_right_phase (make_left_phase pCentral left) right))))"

section \<open>Parser exceptions and their message (\<^verbatim>\<open>shell_parser_exception.cpp\<close>)\<close>

fun errorMessage :: "shell_status \<Rightarrow> string" where
  "errorMessage SHELL_SUCCESS = ''Success''"
| "errorMessage SHELL_ERROR = ''Generic error''"
| "errorMessage SHELL_ERROR_SYNTAX_ERROR = ''Syntax error in command''"
| "errorMessage SHELL_ERROR_SYNTAX_ERROR_UNCLOSED_SIMPLE_QUOTES = ''Unclosed simple quotes''"
| "errorMessage SHELL_ERROR_SYNTAX_ERROR_UNCLOSED_DOUBLE_QUOTES = ''Unclosed double quotes''"
| "errorMessage SHELL_ERROR_SYNTAX_ERROR_UNCLOSED_BACK_QUOTES = ''Unclosed back quotes''"
| "errorMessage SHELL_ERROR_SYNTAX_ERROR_UNCLOSED_PARENTHESES = ''Unclosed parentheses''"
| "errorMessage SHELL_ERROR_SYNTAX_ERROR_UNCLOSED_BRACKETS = ''Unclosed brackets''"
| "errorMessage SHELL_ERROR_SYNTAX_ERROR_UNCLOSED_SQR_BRACKETS = ''Unclosed square brackets''"
| "errorMessage SHELL_ERROR_SYNTAX_ERROR_UNCLOSED_SUBCOMMAND = ''Unclosed subcommand''"
| "errorMessage SHELL_ERROR_SYNTAX_ERROR_UNCLOSED_VARIABLE = ''Unclosed variable''"
| "errorMessage SHELL_ERROR_SYNTAX_ERROR_INVALID_VARIABLE_NAME = ''Invalid variable name''"
| "errorMessage SHELL_ERROR_SYNTAX_ERROR_UNEXPECTED_TOKEN = ''Unexpected token''"
| "errorMessage SHELL_ERROR_SYNTAX_ERROR_UNEXPECTED_EOF = ''Unexpected end of file''"
| "errorMessage SHELL_ERROR_SYNTAX_ERROR_ARG_OUT_OF_RANGE = ''Argument out of range''"
| "errorMessage SHELL_ERROR_SYNTAX_ERROR_EMPTY_BLOCK = ''Empty block''"
| "errorMessage SHELL_ERROR_BAD_ENCODING = ''Bad encoding''"
| "errorMessage SHELL_ERROR_COMMAND_NOT_FOUND = ''Command not found''"
| "errorMessage SHELL_ERROR_SYNTAX_ERROR_UNFINISHED_KEYWORD_IF =
     ''Syntax error: 'if' keyword is not finished.''"
| "errorMessage SHELL_ERROR_SYNTAX_ERROR_MISSING_KEYWORD_THEN =
     ''Syntax error: 'then' keyword is missing.''"
| "errorMessage SHELL_ERROR_SYNTAX_ERROR_UNFINISHED_KEYWORD_LOOP =
     ''Syntax error: 'loop' keyword is not finished.''"
| "errorMessage SHELL_ERROR_SYNTAX_ERROR_UNFINISHED_KEYWORD_FOR =
     ''Syntax error: 'for' keyword is not finished.''"
| "errorMessage SHELL_ERROR_SYNTAX_ERROR_MISSING_KEYWORD_IN =
     ''Syntax error: 'in' keyword is missing.''"
| "errorMessage SHELL_ERROR_SYNTAX_ERROR_UNFINISHED_KEYWORD_WHILE =
     ''Syntax error: 'while' keyword is not finished.''"
| "errorMessage SHELL_ERROR_SYNTAX_ERROR_UNFINISHED_KEYWORD_UNTIL =
     ''Syntax error: 'until' keyword is not finished.''"
| "errorMessage SHELL_ERROR_SYNTAX_ERROR_MISSING_KEYWORD_DO =
     ''Syntax error: 'do' keyword is missing.''"
| "errorMessage SHELL_ERROR_MAX_DEPTH_REACHED = ''Maximum command nesting depth reached''"
| "errorMessage SHELL_ERROR_SYNTAX_ERROR_INVALID_FUNCTION_NAME = ''Invalid function name''"
| "errorMessage SHELL_ERROR_SYNTAX_ERROR_INVALID_FUNCTION_BODY = ''Invalid function body''"
| "errorMessage (SHELL_CMD_ERROR n) = ''Unknown error''"

text \<open>\<^verbatim>\<open>std::string::rfind(ch, pos)\<close>: the last index at or before \<open>pos\<close> holding \<open>ch\<close>;
  \<^verbatim>\<open>std::string::find(ch, pos)\<close>: the first index at or after \<open>pos\<close>. \<open>None\<close> is \<^verbatim>\<open>npos\<close>.\<close>

fun rfind_from :: "string \<Rightarrow> char \<Rightarrow> nat \<Rightarrow> nat option" where
  "rfind_from s c 0 = (if 0 < length s \<and> s ! 0 = c then Some 0 else None)"
| "rfind_from s c (Suc i) =
     (if Suc i < length s \<and> s ! Suc i = c then Some (Suc i) else rfind_from s c i)"

definition rfind :: "string \<Rightarrow> char \<Rightarrow> nat \<Rightarrow> nat option" where
  "rfind s c pos = (if s = [] then None else rfind_from s c (min pos (length s - 1)))"

fun find_char :: "char \<Rightarrow> string \<Rightarrow> nat \<Rightarrow> nat option" where
  "find_char c [] i = None"
| "find_char c (x # xs) i = (if x = c then Some i else find_char c xs (Suc i))"

definition find_from :: "string \<Rightarrow> char \<Rightarrow> nat \<Rightarrow> nat option" where
  "find_from s c pos = find_char c (drop pos s) pos"

text \<open>\<^verbatim>\<open>substr(start, count)\<close> for \<open>start\<close> within the string (it is, wherever it is called).\<close>

definition substr :: "string \<Rightarrow> nat \<Rightarrow> nat \<Rightarrow> string" where
  "substr s start count = take count (drop start s)"

text \<open>\<^verbatim>\<open>getLineFromPosition\<close>; \<^verbatim>\<open>end - start\<close> is a \<^verbatim>\<open>std::size_t\<close> subtraction.\<close>

definition getLineFromPosition :: "string \<Rightarrow> nat \<Rightarrow> string" where
  "getLineFromPosition sCommand nPos =
     (if nPos \<ge> length sCommand then ''''
      else
        let start = (case rfind sCommand (CHR 0x0A) nPos of None \<Rightarrow> 0 | Some i \<Rightarrow> i + 1);
            end = (case find_from sCommand (CHR 0x0A) nPos of
                     None \<Rightarrow> length sCommand | Some j \<Rightarrow> j)
        in substr sCommand start (unat ((of_nat end :: size_t) - of_nat start)))"

text \<open>The length of a UTF-8 sequence from its first byte; \<open>None\<close> is the final \<^verbatim>\<open>else\<close>.\<close>

definition utf8_sequence_length :: "8 word \<Rightarrow> nat option" where
  "utf8_sequence_length cFirstByte =
     (if cFirstByte AND 0x80 = 0 then Some 1
      else if cFirstByte AND 0xE0 = 0xC0 then Some 2
      else if cFirstByte AND 0xF0 = 0xE0 then Some 3
      else if cFirstByte AND 0xF8 = 0xF0 then Some 4
      else None)"

lemma utf8_sequence_length_pos: "utf8_sequence_length b = Some n \<Longrightarrow> 0 < n"
  by (auto simp: utf8_sequence_length_def split: if_splits)

datatype out_of_range = out_of_range string

text \<open>The \<^verbatim>\<open>while\<close> loop of \<^verbatim>\<open>getCodePointAtByte\<close>, from \<open>nByteIndex\<close> and \<open>nCharIndex\<close>.\<close>

function getCodePointAtByte_loop :: "string \<Rightarrow> nat \<Rightarrow> nat \<Rightarrow> nat \<Rightarrow> out_of_range + nat" where
  "getCodePointAtByte_loop sCommand nPos nByteIndex nCharIndex =
     (if nByteIndex < length sCommand then
        (case utf8_sequence_length (of_char (sCommand ! nByteIndex)) of
           None \<Rightarrow> Inr nPos
         | Some nBytesProcessed \<Rightarrow>
             if nPos \<ge> nByteIndex \<and> nPos < nByteIndex + nBytesProcessed then Inr nCharIndex
             else getCodePointAtByte_loop sCommand nPos (nByteIndex + nBytesProcessed)
                    (nCharIndex + 1))
      else Inl (out_of_range ''Byte index is out of range''))"
  by pat_completeness auto
termination
  by (relation "measure (\<lambda>(s, p, i, c). length s - i)")
     (auto dest: utf8_sequence_length_pos)

declare getCodePointAtByte_loop.simps [simp del]

definition getCodePointAtByte :: "string \<Rightarrow> nat \<Rightarrow> out_of_range + nat" where
  "getCodePointAtByte sCommand nPos =
     (if nPos \<ge> length sCommand then Inr nPos
      else getCodePointAtByte_loop sCommand nPos 0 0)"

definition makeMessage :: "shell_status \<Rightarrow> string \<Rightarrow> nat \<Rightarrow> out_of_range + string" where
  "makeMessage nStatus sCommand nPos =
     (let sLine = getLineFromPosition sCommand nPos in
      case getCodePointAtByte sLine nPos of
        Inl e \<Rightarrow> Inl e
      | Inr nCodePoint \<Rightarrow>
      (case getCodePointAtByte sCommand nPos of
        Inl e \<Rightarrow> Inl e
      | Inr nAbsoluteCodePoint \<Rightarrow>
          Inr (errorMessage nStatus
               @ [CHR 0x0A] @ sLine
               @ [CHR 0x0A] @ replicate nCodePoint (CHR '' '') @ ''^~~~''
               @ [CHR 0x0A] @ ''Code point: '' @ to_string_nat nAbsoluteCodePoint
               @ [CHR 0x0A] @ ''Byte: '' @ to_string_nat nPos @ [CHR 0x0A])))"

text \<open>The exception object: status, command text, position, and \<^verbatim>\<open>what()\<close>, the message built
  by the constructor.\<close>

record shell_parser_exception =
  m_nStatus :: shell_status
  m_sCommand :: string
  m_nPos :: nat
  what :: string

text \<open>The constructor; it fails where \<^verbatim>\<open>makeMessage\<close> throws.\<close>

definition shell_parser_exception_new ::
  "shell_status \<Rightarrow> string \<Rightarrow> nat \<Rightarrow> out_of_range + shell_parser_exception" where
  "shell_parser_exception_new nStatus sCommand nPos =
     (case makeMessage nStatus sCommand nPos of
        Inl e \<Rightarrow> Inl e
      | Inr msg \<Rightarrow>
          Inr \<lparr>m_nStatus = nStatus, m_sCommand = sCommand, m_nPos = nPos, what = msg\<rparr>)"

section \<open>The parser's depth guard (\<^verbatim>\<open>shell_parser.cpp\<close>)\<close>
















section \<open>Sessions over an explicit store (\<^verbatim>\<open>shell_session.h\<close>)\<close>

text \<open>
  A session holds \<^verbatim>\<open>shared_ptr\<close>s to its environment, arguments, locals and function table, and
  references to three streams. Two sessions may hold the same pointer, so the pointed-to
  objects live in a store, one component per C++ type, and a session holds addresses.
  \<open>h_next\<close> is the next unused address; \<open>h_cout\<close> is the process-wide \<^verbatim>\<open>std::cout\<close>.
  Every constructor initialises \<^verbatim>\<open>m_pEnv\<close>, \<^verbatim>\<open>m_pArg\<close> and \<^verbatim>\<open>m_pVar\<close>; \<^verbatim>\<open>m_pVtable\<close> can be a
  null pointer (\<open>None\<close>).
\<close>

type_synonym addr = nat
type_synonym shell_env = "string \<rightharpoonup> string"
type_synonym shell_var = "string \<rightharpoonup> string"
type_synonym shell_arg = "string list"
type_synonym shell_vtable = "string \<rightharpoonup> evaluable"

record heap =
  h_env :: "addr \<Rightarrow> shell_env"
  h_arg :: "addr \<Rightarrow> shell_arg"
  h_var :: "addr \<Rightarrow> shell_var"
  h_vtable :: "addr \<Rightarrow> shell_vtable"
  h_istream :: "addr \<Rightarrow> string"
  h_ostream :: "addr \<Rightarrow> string"
  h_next :: addr
  h_cout :: string

record shell_session =
  m_pEnv :: addr
  m_pArg :: addr
  m_pVar :: addr
  m_pVtable :: "addr option"
  m_nLastCommandResult :: shell_status
  m_oStdIn :: addr
  m_oStdOut :: addr
  m_oStdErr :: addr
  m_nCurrentDepth :: size_t

text \<open>\<^verbatim>\<open>shell_env\<close>, \<^verbatim>\<open>shell_var\<close> and \<^verbatim>\<open>shell_arg\<close>, read through the session's pointers.\<close>

definition has_env :: "shell_session \<Rightarrow> heap \<Rightarrow> string \<Rightarrow> bool" where
  "has_env s h sVariable = (h_env h (m_pEnv s) sVariable \<noteq> None)"

definition get_env :: "shell_session \<Rightarrow> heap \<Rightarrow> string \<Rightarrow> string" where
  "get_env s h sVariable =
     (case h_env h (m_pEnv s) sVariable of Some v \<Rightarrow> v | None \<Rightarrow> '''')"

definition set_env :: "shell_session \<Rightarrow> string \<Rightarrow> string \<Rightarrow> heap \<Rightarrow> heap" where
  "set_env s sVariable sValue h =
     h\<lparr>h_env := (h_env h)(m_pEnv s := (h_env h (m_pEnv s))(sVariable \<mapsto> sValue))\<rparr>"

definition has_var :: "shell_session \<Rightarrow> heap \<Rightarrow> string \<Rightarrow> bool" where
  "has_var s h sVariable = (h_var h (m_pVar s) sVariable \<noteq> None)"

definition get_var :: "shell_session \<Rightarrow> heap \<Rightarrow> string \<Rightarrow> string" where
  "get_var s h sVariable =
     (case h_var h (m_pVar s) sVariable of Some v \<Rightarrow> v | None \<Rightarrow> '''')"

definition set_var :: "shell_session \<Rightarrow> string \<Rightarrow> string \<Rightarrow> heap \<Rightarrow> heap" where
  "set_var s sVariable sValue h =
     h\<lparr>h_var := (h_var h)(m_pVar s := (h_var h (m_pVar s))(sVariable \<mapsto> sValue))\<rparr>"

definition get_args :: "shell_session \<Rightarrow> heap \<Rightarrow> string list" where
  "get_args s h = h_arg h (m_pArg s)"

text \<open>\<^verbatim>\<open>nArg < size() ? at(nArg) : ""\<close>\<close>

definition get_arg :: "shell_session \<Rightarrow> heap \<Rightarrow> size_t \<Rightarrow> string" where
  "get_arg s h nArg =
     (if unat nArg < length (get_args s h) then get_args s h ! unat nArg else '''')"

text \<open>\<^verbatim>\<open>m_vArgVariables.size()\<close>, a \<^verbatim>\<open>std::size_t\<close>.\<close>

definition get_arg_size :: "shell_session \<Rightarrow> heap \<Rightarrow> size_t" where
  "get_arg_size s h = of_nat (length (get_args s h))"

text \<open>
  \<^verbatim>\<open>get_func\<close> and \<^verbatim>\<open>set_func\<close> call through \<^verbatim>\<open>this->m_pVtable->\<close>, which is undefined behaviour
  on a null pointer.
\<close>

datatype null_pointer = null_pointer_dereference

definition get_func :: "shell_session \<Rightarrow> heap \<Rightarrow> string \<Rightarrow> null_pointer + evaluable option" where
  "get_func s h sVar =
     (case m_pVtable s of
        None \<Rightarrow> Inl null_pointer_dereference
      | Some t \<Rightarrow> Inr (h_vtable h t sVar))"

definition set_func :: "shell_session \<Rightarrow> string \<Rightarrow> evaluable \<Rightarrow> heap \<Rightarrow> null_pointer + heap" where
  "set_func s sName pFunction h =
     (case m_pVtable s of
        None \<Rightarrow> Inl null_pointer_dereference
      | Some t \<Rightarrow> Inr (h\<lparr>h_vtable := (h_vtable h)(t := (h_vtable h t)(sName \<mapsto> pFunction))\<rparr>))"

text \<open>Writing to a stream the session refers to (\<^verbatim>\<open>oSession.out() << ...\<close>).\<close>

definition write_stream :: "addr \<Rightarrow> string \<Rightarrow> heap \<Rightarrow> heap" where
  "write_stream a txt h = h\<lparr>h_ostream := (h_ostream h)(a := h_ostream h a @ txt)\<rparr>"

text \<open>
  Allocation: \<^verbatim>\<open>std::make_shared<T>(x)\<close> stores \<open>x\<close> at the next unused address. Local
  \<^verbatim>\<open>std::ostringstream\<close> and \<^verbatim>\<open>std::istringstream\<close> objects are allocated the same way.
\<close>

definition make_shared_env :: "shell_env \<Rightarrow> heap \<Rightarrow> addr \<times> heap" where
  "make_shared_env x h = (h_next h, h\<lparr>h_env := (h_env h)(h_next h := x), h_next := Suc (h_next h)\<rparr>)"

definition make_shared_arg :: "shell_arg \<Rightarrow> heap \<Rightarrow> addr \<times> heap" where
  "make_shared_arg x h = (h_next h, h\<lparr>h_arg := (h_arg h)(h_next h := x), h_next := Suc (h_next h)\<rparr>)"

definition make_shared_var :: "shell_var \<Rightarrow> heap \<Rightarrow> addr \<times> heap" where
  "make_shared_var x h = (h_next h, h\<lparr>h_var := (h_var h)(h_next h := x), h_next := Suc (h_next h)\<rparr>)"

definition make_shared_vtable :: "shell_vtable \<Rightarrow> heap \<Rightarrow> addr \<times> heap" where
  "make_shared_vtable x h =
     (h_next h, h\<lparr>h_vtable := (h_vtable h)(h_next h := x), h_next := Suc (h_next h)\<rparr>)"

definition new_ostringstream :: "heap \<Rightarrow> addr \<times> heap" where
  "new_ostringstream h =
     (h_next h, h\<lparr>h_ostream := (h_ostream h)(h_next h := ''''), h_next := Suc (h_next h)\<rparr>)"

definition new_istringstream :: "string \<Rightarrow> heap \<Rightarrow> addr \<times> heap" where
  "new_istringstream txt h =
     (h_next h, h\<lparr>h_istream := (h_istream h)(h_next h := txt), h_next := Suc (h_next h)\<rparr>)"

text \<open>
  The public constructor \<^verbatim>\<open>shell_session(pShell, oStdIn, oStdOut, oStdErr)\<close>: fresh empty
  environment, arguments, locals and function table, status \<^verbatim>\<open>SHELL_SUCCESS\<close>, depth 0.
\<close>

definition shell_session_new :: "addr \<Rightarrow> addr \<Rightarrow> addr \<Rightarrow> heap \<Rightarrow> shell_session \<times> heap" where
  "shell_session_new oStdIn oStdOut oStdErr h =
     (let (e, h1) = make_shared_env Map.empty h;
          (a, h2) = make_shared_arg [] h1;
          (v, h3) = make_shared_var Map.empty h2;
          (t, h4) = make_shared_vtable Map.empty h3
      in (\<lparr>m_pEnv = e, m_pArg = a, m_pVar = v, m_pVtable = Some t,
           m_nLastCommandResult = SHELL_SUCCESS,
           m_oStdIn = oStdIn, m_oStdOut = oStdOut, m_oStdErr = oStdErr,
           m_nCurrentDepth = 0\<rparr>, h4))"

text \<open>
  The public constructor \<^verbatim>\<open>shell_session(pBash, oStdIn, oStdOut, oStdErr, oEnv, oArg)\<close>: the
  given environment and arguments, fresh locals, status \<^verbatim>\<open>SHELL_SUCCESS\<close>, depth 0. Its
  initialiser list has no entry for \<^verbatim>\<open>m_pVtable\<close>, which is therefore default-constructed: a
  null \<^verbatim>\<open>shared_ptr\<close>.
\<close>

definition shell_session_new_env_arg ::
  "addr \<Rightarrow> addr \<Rightarrow> addr \<Rightarrow> shell_env \<Rightarrow> shell_arg \<Rightarrow> heap \<Rightarrow> shell_session \<times> heap" where
  "shell_session_new_env_arg oStdIn oStdOut oStdErr oEnv oArg h =
     (let (e, h1) = make_shared_env oEnv h;
          (a, h2) = make_shared_arg oArg h1;
          (v, h3) = make_shared_var Map.empty h2
      in (\<lparr>m_pEnv = e, m_pArg = a, m_pVar = v, m_pVtable = None,
           m_nLastCommandResult = SHELL_SUCCESS,
           m_oStdIn = oStdIn, m_oStdOut = oStdOut, m_oStdErr = oStdErr,
           m_nCurrentDepth = 0\<rparr>, h3))"

text \<open>
  A host as in \<^verbatim>\<open>test_shell.cpp\<close>: three streams of its own (addresses 0, 1, 2), all empty,
  and one session built on them.
\<close>

definition host_heap :: heap where
  "host_heap = \<lparr>h_env = (\<lambda>_. Map.empty), h_arg = (\<lambda>_. []), h_var = (\<lambda>_. Map.empty),
     h_vtable = (\<lambda>_. Map.empty), h_istream = (\<lambda>_. ''''), h_ostream = (\<lambda>_. ''''),
     h_next = 3, h_cout = ''''\<rparr>"

definition host_session :: shell_session where
  "host_session = fst (shell_session_new 0 1 2 host_heap)"

definition host_session_heap :: heap where
  "host_session_heap = snd (shell_session_new 0 1 2 host_heap)"

subsection \<open>Session derivation\<close>

text \<open>
  The four derivations, each through the protected constructor, which starts the new session
  with status \<^verbatim>\<open>SHELL_SUCCESS\<close> and depth 0. \<^verbatim>\<open>make_shared<T>(*p)\<close> copy-constructs the
  pointed-to object at a new address; passing \<^verbatim>\<open>p\<close> itself shares it. The order in which
  C++ evaluates the constructor arguments is unspecified; it only permutes the new addresses.
  \<^verbatim>\<open>make_subsession\<close> evaluates \<^verbatim>\<open>*m_pVtable\<close>, which is undefined behaviour on a null pointer;
  the other three derivations copy the pointer without dereferencing it.
\<close>

definition make_subsession ::
  "shell_session \<Rightarrow> addr \<Rightarrow> addr \<Rightarrow> addr \<Rightarrow> heap \<Rightarrow> null_pointer + shell_session \<times> heap" where
  "make_subsession s oStdIn oStdOut oStdErr h =
     (case m_pVtable s of
        None \<Rightarrow> Inl null_pointer_dereference
      | Some pVtable \<Rightarrow>
          (let (e, h1) = make_shared_env (h_env h (m_pEnv s)) h;
               (v, h2) = make_shared_var (h_var h1 (m_pVar s)) h1;
               (t, h3) = make_shared_vtable (h_vtable h2 pVtable) h2
           in Inr (\<lparr>m_pEnv = e, m_pArg = m_pArg s, m_pVar = v, m_pVtable = Some t,
                     m_nLastCommandResult = SHELL_SUCCESS,
                     m_oStdIn = oStdIn, m_oStdOut = oStdOut, m_oStdErr = oStdErr,
                     m_nCurrentDepth = 0\<rparr>, h3)))"

text \<open>\<^verbatim>\<open>make_function_call\<close> first prints \<^verbatim>\<open>"fcall " << m_pArg->get_arg(1) << std::endl\<close>
  on \<^verbatim>\<open>std::cout\<close>.\<close>

definition make_function_call :: "shell_session \<Rightarrow> shell_arg \<Rightarrow> heap \<Rightarrow> shell_session \<times> heap" where
  "make_function_call s oArg h =
     (let h0 = h\<lparr>h_cout := h_cout h @ ''fcall '' @ get_arg s h 1 @ [CHR 0x0A]\<rparr>;
          (a, h1) = make_shared_arg oArg h0;
          (v, h2) = make_shared_var Map.empty h1
      in (\<lparr>m_pEnv = m_pEnv s, m_pArg = a, m_pVar = v, m_pVtable = m_pVtable s,
           m_nLastCommandResult = SHELL_SUCCESS,
           m_oStdIn = m_oStdIn s, m_oStdOut = m_oStdOut s, m_oStdErr = m_oStdErr s,
           m_nCurrentDepth = 0\<rparr>, h2))"

definition make_pipe_left :: "shell_session \<Rightarrow> addr \<Rightarrow> heap \<Rightarrow> shell_session \<times> heap" where
  "make_pipe_left s oStdOut h =
     (\<lparr>m_pEnv = m_pEnv s, m_pArg = m_pArg s, m_pVar = m_pVar s, m_pVtable = m_pVtable s,
       m_nLastCommandResult = SHELL_SUCCESS,
       m_oStdIn = m_oStdIn s, m_oStdOut = oStdOut, m_oStdErr = m_oStdErr s,
       m_nCurrentDepth = 0\<rparr>, h)"

definition make_pipe_right :: "shell_session \<Rightarrow> addr \<Rightarrow> heap \<Rightarrow> shell_session \<times> heap" where
  "make_pipe_right s oStdIn h =
     (\<lparr>m_pEnv = m_pEnv s, m_pArg = m_pArg s, m_pVar = m_pVar s, m_pVtable = m_pVtable s,
       m_nLastCommandResult = SHELL_SUCCESS,
       m_oStdIn = oStdIn, m_oStdOut = m_oStdOut s, m_oStdErr = m_oStdErr s,
       m_nCurrentDepth = 0\<rparr>, h)"

text \<open>A session is allocated in a store when its four pointers are addresses in use (so none
  of them is null).\<close>

definition session_allocated :: "shell_session \<Rightarrow> heap \<Rightarrow> bool" where
  "session_allocated s h =
     (m_pEnv s < h_next h \<and> m_pArg s < h_next h \<and> m_pVar s < h_next h
      \<and> (case m_pVtable s of None \<Rightarrow> False | Some t \<Rightarrow> t < h_next h))"

section \<open>Session extractors (\<^verbatim>\<open>shell_node_expand.cpp\<close>)\<close>

text \<open>\<^verbatim>\<open>shell_node_variable::get_value\<close> and \<^verbatim>\<open>shell_node_dollar_variable::get_value\<close>
  have the same body.\<close>

definition shell_node_variable_get_value :: "string \<Rightarrow> shell_session \<Rightarrow> heap \<Rightarrow> string" where
  "shell_node_variable_get_value m_sVariable s h =
     (if has_var s h m_sVariable then get_var s h m_sVariable
      else if has_env s h m_sVariable then get_env s h m_sVariable
      else '''')"

definition shell_node_dollar_variable_get_value :: "string \<Rightarrow> shell_session \<Rightarrow> heap \<Rightarrow> string" where
  "shell_node_dollar_variable_get_value m_sVariable s h =
     (if has_var s h m_sVariable then get_var s h m_sVariable
      else if has_env s h m_sVariable then get_env s h m_sVariable
      else '''')"

text \<open>The \<^verbatim>\<open>$@\<close> loop: arguments 1.. joined by single spaces.\<close>

fun join_spaces :: "string list \<Rightarrow> string" where
  "join_spaces [] = ''''"
| "join_spaces [x] = x"
| "join_spaces (x # y # ys) = x @ '' '' @ join_spaces (y # ys)"

text \<open>
  \<^verbatim>\<open>shell_node_dollar_special::get_value\<close>. \<open>pid\<close> is what \<^verbatim>\<open>get_pid()\<close> returns on the
  platform. The \<^verbatim>\<open>'?'\<close> case casts the status to \<^verbatim>\<open>int\<close>; the \<^verbatim>\<open>'#'\<close> case subtracts in
  \<^verbatim>\<open>std::size_t\<close>.
\<close>

definition shell_node_dollar_special_get_value ::
  "int \<Rightarrow> char \<Rightarrow> shell_session \<Rightarrow> heap \<Rightarrow> string" where
  "shell_node_dollar_special_get_value pid m_cItem s h =
     (if m_cItem = CHR ''0'' then ''emptyset''
      else if m_cItem = CHR ''$'' then to_string_int pid
      else if m_cItem = CHR ''?'' then to_string_int (status_to_int (m_nLastCommandResult s))
      else if m_cItem = CHR ''#'' then to_string_size_t (get_arg_size s h - 1)
      else if m_cItem = CHR ''@'' then join_spaces (tl (get_args s h))
      else ''$'')"

section \<open>Expansion helpers (\<^verbatim>\<open>shell_tools.h\<close>, \<^verbatim>\<open>utf.h\<close>, \<^verbatim>\<open>shell_def.h\<close>)\<close>

text \<open>
  \<^verbatim>\<open>split_string\<close>: the loop keeps \<open>nStart\<close> and \<open>nLength\<close>; \<open>cur\<close> is
  \<^verbatim>\<open>oString.substr(nStart, nLength)\<close>, the pending piece.
\<close>

fun split_string_loop :: "string \<Rightarrow> string \<Rightarrow> string list" where
  "split_string_loop [] cur = (if cur \<noteq> [] then [cur] else [])"
| "split_string_loop (cChar # cs) cur =
     (if cChar = CHR '' '' \<or> cChar = CHR 0x0A \<or> cChar = CHR 0x09
      then (if cur \<noteq> [] then cur # split_string_loop cs [] else split_string_loop cs [])
      else split_string_loop cs (cur @ [cChar]))"

definition split_string :: "string \<Rightarrow> string list" where
  "split_string oString = split_string_loop oString []"

text \<open>\<^verbatim>\<open>write_char32_t\<close>; \<^verbatim>\<open>static_cast<char>\<close> keeps the low eight bits.\<close>

definition to_char :: "32 word \<Rightarrow> char" where
  "to_char w = char_of (unat w)"

definition write_char32_t :: "32 word \<Rightarrow> string" where
  "write_char32_t cChar =
     (if cChar \<le> 0x7F then [to_char cChar]
      else if cChar \<le> 0x7FF then
        [to_char (drop_bit 6 cChar OR 0xC0), to_char ((cChar AND 0x3F) OR 0x80)]
      else if cChar \<le> 0xFFFF then
        [to_char (drop_bit 12 cChar OR 0xE0), to_char ((drop_bit 6 cChar AND 0x3F) OR 0x80),
         to_char ((cChar AND 0x3F) OR 0x80)]
      else if cChar \<le> 0x10FFFF then
        [to_char (drop_bit 18 cChar OR 0xF0), to_char ((drop_bit 12 cChar AND 0x3F) OR 0x80),
         to_char ((drop_bit 6 cChar AND 0x3F) OR 0x80), to_char ((cChar AND 0x3F) OR 0x80)]
      else [])"

text \<open>\<^verbatim>\<open>is_var\<close>: a letter or underscore, then letters, digits and underscores.\<close>

definition is_var_start :: "char \<Rightarrow> bool" where
  "is_var_start cChar =
     (\<not> (cChar \<noteq> CHR ''_''
          \<and> ((of_char cChar :: nat) < of_char (CHR ''a'') \<or> (of_char cChar :: nat) > of_char (CHR ''z''))
          \<and> ((of_char cChar :: nat) < of_char (CHR ''A'') \<or> (of_char cChar :: nat) > of_char (CHR ''Z''))))"

definition is_var_char :: "char \<Rightarrow> bool" where
  "is_var_char cChar =
     (\<not> (cChar \<noteq> CHR ''_''
          \<and> ((of_char cChar :: nat) < of_char (CHR ''a'') \<or> (of_char cChar :: nat) > of_char (CHR ''z''))
          \<and> ((of_char cChar :: nat) < of_char (CHR ''A'') \<or> (of_char cChar :: nat) > of_char (CHR ''Z''))
          \<and> ((of_char cChar :: nat) < of_char (CHR ''0'') \<or> (of_char cChar :: nat) > of_char (CHR ''9''))))"

fun is_var :: "string \<Rightarrow> bool" where
  "is_var [] = False"
| "is_var (cChar # cs) = (is_var_start cChar \<and> list_all is_var_char cs)"

section \<open>The word-gluing steps of \<^verbatim>\<open>shell_node_command_expression::expand\<close>\<close>

text \<open>
  The loop state is the word buffer \<open>oWord\<close> and the tokens pushed so far. A \<^verbatim>\<open>nullptr\<close> child
  pushes a non-empty buffer and resets it. A child with sub-tokens appends the first one to
  the buffer, pushes the buffer and resets it (\<^verbatim>\<open>str_reset\<close>), pushes sub-tokens
  \<open>1 .. size - 2\<close> when there are more than two, and appends the last one to the buffer when
  there is more than one. After the loop a non-empty buffer is pushed.
\<close>

definition glue_null :: "string \<times> string list \<Rightarrow> string \<times> string list" where
  "glue_null st = (case st of (oWord, vTokens) \<Rightarrow>
     if oWord \<noteq> [] then ([], vTokens @ [oWord]) else (oWord, vTokens))"

definition glue_child :: "string list \<Rightarrow> string \<times> string list \<Rightarrow> string \<times> string list" where
  "glue_child vSubTokens st = (case st of (oWord, vTokens) \<Rightarrow>
     if vSubTokens \<noteq> [] then
       (let vTokens1 = vTokens @ [oWord @ hd vSubTokens];
            vTokens2 = (if length vSubTokens > 2
                        then vTokens1 @ take (length vSubTokens - 2) (drop 1 vSubTokens)
                        else vTokens1);
            oWord2 = (if length vSubTokens > 1 then last vSubTokens else [])
        in (oWord2, vTokens2))
     else (oWord, vTokens))"

definition glue_finish :: "string \<times> string list \<Rightarrow> string list" where
  "glue_finish st = (case st of (oWord, vTokens) \<Rightarrow>
     if oWord \<noteq> [] then vTokens @ [oWord] else vTokens)"

text \<open>The loop over the sub-token lists of the children (\<open>None\<close> for a \<^verbatim>\<open>nullptr\<close> child).\<close>

fun glue :: "string list option list \<Rightarrow> string \<times> string list \<Rightarrow> string list" where
  "glue [] st = glue_finish st"
| "glue (None # cs) st = glue cs (glue_null st)"
| "glue (Some vSubTokens # cs) st = glue cs (glue_child vSubTokens st)"

section \<open>Evaluation (\<^verbatim>\<open>shell_node_evaluate.cpp\<close>, \<^verbatim>\<open>shell_node_expand.cpp\<close>, \<^verbatim>\<open>command.cpp\<close>)\<close>

text \<open>
  What a call can throw: the two control-flow signals and the parser exception. Indexing a
  vector out of range and dereferencing a null pointer are kept as a fourth outcome.
\<close>

datatype exn =
    break_signal
  | continue_signal
  | parser_exception shell_parser_exception
  | undefined_behaviour string

text \<open>
  The commands of the registry: \<^verbatim>\<open>echo\<close>, \<^verbatim>\<open>eval\<close> and \<^verbatim>\<open>fcall\<close> are modelled from their
  source; any other command is a function the host supplies.
\<close>

datatype command =
    command_echo
  | command_eval
  | command_fcall
  | command_host "string list \<Rightarrow> shell_session \<Rightarrow> heap \<Rightarrow> (exn + shell_status) \<times> shell_session \<times> heap"

text \<open>
  What evaluation takes from outside: the parser (\<^verbatim>\<open>shell_parser::parse\<close>, tokenizer included),
  which returns the tree or throws; the command registry of the shell; the \<^verbatim>\<open>command_test\<close>
  used when no \<^verbatim>\<open>test\<close> is registered; and the process id.
\<close>

record runtime =
  rt_parse :: "string \<Rightarrow> shell_parser_exception + evaluable"
  m_mCommands :: "string \<rightharpoonup> command"
  rt_command_test :: command
  rt_pid :: int

text \<open>The error hooks of \<^verbatim>\<open>shell\<close> (the base class versions), writing to the session's stderr.\<close>

definition msg_error_command_not_found :: "shell_session \<Rightarrow> string \<Rightarrow> heap \<Rightarrow> heap" where
  "msg_error_command_not_found s sCommand h =
     write_stream (m_oStdErr s)
       (''shell: '' @ [CHR 0xE2, CHR 0x80, CHR 0x9C] @ sCommand @ [CHR 0xE2, CHR 0x80, CHR 0x9D]
        @ '': not found.'' @ [CHR 0x0A]) h"

definition msg_error_invalid_function_name :: "shell_session \<Rightarrow> string \<Rightarrow> heap \<Rightarrow> heap" where
  "msg_error_invalid_function_name s sFunction h =
     write_stream (m_oStdErr s)
       (''shell: '' @ [CHR 0xE2, CHR 0x80, CHR 0x9C] @ sFunction @ [CHR 0xE2, CHR 0x80, CHR 0x9D]
        @ '': invalid function name.'' @ [CHR 0x0A]) h"

definition msg_error_syntax_error :: "shell_session \<Rightarrow> shell_parser_exception \<Rightarrow> heap \<Rightarrow> heap" where
  "msg_error_syntax_error s oException h = write_stream (m_oStdErr s) (what oException) h"

text \<open>The session's depth counter.\<close>

definition increase_shell_depth :: "shell_session \<Rightarrow> bool \<times> shell_session" where
  "increase_shell_depth s =
     (if m_nCurrentDepth s + 1 \<le> SHELL_MAX_DEPTH
      then (True, s\<lparr>m_nCurrentDepth := m_nCurrentDepth s + 1\<rparr>)
      else (False, s))"

definition decrease_shell_depth :: "shell_session \<Rightarrow> shell_session" where
  "decrease_shell_depth s =
     (if m_nCurrentDepth s > 0 then s\<lparr>m_nCurrentDepth := m_nCurrentDepth s - 1\<rparr> else s)"

text \<open>\<^verbatim>\<open>command_echo::run\<close>\<close>

definition command_echo_run ::
  "string list \<Rightarrow> shell_session \<Rightarrow> heap \<Rightarrow> (exn + shell_status) \<times> shell_session \<times> heap" where
  "command_echo_run vArgs s h =
     (let bNoEndl = (vArgs \<noteq> [] \<and> hd vArgs = ''-n'');
          nBegin = (if bNoEndl then 1 else 0);
          oOstream = join_spaces (drop nBegin vArgs) @ (if bNoEndl then [] else [CHR 0x0A])
      in (Inr SHELL_SUCCESS, s, write_stream (m_oStdOut s) oOstream h))"

text \<open>The loops over children, given how one child is evaluated or expanded.\<close>

type_synonym eval_result = "((exn + shell_status) \<times> shell_session \<times> heap) option"
type_synonym expand_result = "((exn + string list) \<times> heap) option"

fun block_loop ::
  "(evaluable \<Rightarrow> shell_session \<Rightarrow> heap \<Rightarrow> eval_result) \<Rightarrow> evaluable list \<Rightarrow> shell_session \<Rightarrow> heap
     \<Rightarrow> ((exn + unit) \<times> shell_session \<times> heap) option" where
  "block_loop ev [] s h = Some (Inr (), s, h)"
| "block_loop ev (pSubCommand # xs) s h =
     (case ev pSubCommand s h of
        None \<Rightarrow> None
      | Some (Inl e, s1, h1) \<Rightarrow> Some (Inl e, s1, h1)
      | Some (Inr _, s1, h1) \<Rightarrow> block_loop ev xs s1 h1)"

fun subshell_loop ::
  "(evaluable \<Rightarrow> shell_session \<Rightarrow> heap \<Rightarrow> eval_result) \<Rightarrow> evaluable list \<Rightarrow> shell_session \<Rightarrow> heap
     \<Rightarrow> ((exn + unit) \<times> heap) option" where
  "subshell_loop ev [] s h = Some (Inr (), h)"
| "subshell_loop ev (pSubCommand # xs) s h =
     (case make_subsession s (m_oStdIn s) (m_oStdOut s) (m_oStdErr s) h of
        Inl _ \<Rightarrow> Some (Inl (undefined_behaviour ''null m_pVtable dereferenced''), h)
      | Inr (pSubSession, h0) \<Rightarrow>
     (case ev pSubCommand pSubSession h0 of
        None \<Rightarrow> None
      | Some (Inl e, _, h1) \<Rightarrow> Some (Inl e, h1)
      | Some (Inr _, _, h1) \<Rightarrow> subshell_loop ev xs s h1))"

fun for_loop ::
  "(shell_session \<Rightarrow> heap \<Rightarrow> eval_result) \<Rightarrow> string \<Rightarrow> string list \<Rightarrow> shell_session \<Rightarrow> heap
     \<Rightarrow> eval_result" where
  "for_loop body m_sVariable [] s h = Some (Inr (m_nLastCommandResult s), s, h)"
| "for_loop body m_sVariable (sItem # vSequence) s h =
     (case body s (set_var s m_sVariable sItem h) of
        None \<Rightarrow> None
      | Some (Inl continue_signal, s1, h1) \<Rightarrow> for_loop body m_sVariable vSequence s1 h1
      | Some (Inl break_signal, s1, h1) \<Rightarrow> Some (Inr (m_nLastCommandResult s1), s1, h1)
      | Some (Inl e, s1, h1) \<Rightarrow> Some (Inl e, s1, h1)
      | Some (Inr _, s1, h1) \<Rightarrow> for_loop body m_sVariable vSequence s1 h1)"

fun str_loop ::
  "(expandable \<Rightarrow> heap \<Rightarrow> expand_result) \<Rightarrow> expandable list \<Rightarrow> heap
     \<Rightarrow> ((exn + string) \<times> heap) option" where
  "str_loop ex [] h = Some (Inr [], h)"
| "str_loop ex (pChild # cs) h =
     (case ex pChild h of
        None \<Rightarrow> None
      | Some (Inl e, h1) \<Rightarrow> Some (Inl e, h1)
      | Some (Inr vSubTokens, h1) \<Rightarrow>
     (case str_loop ex cs h1 of
        None \<Rightarrow> None
      | Some (Inl e, h2) \<Rightarrow> Some (Inl e, h2)
      | Some (Inr rest, h2) \<Rightarrow> Some (Inr (concat vSubTokens @ rest), h2)))"

fun command_expression_loop ::
  "(expandable \<Rightarrow> heap \<Rightarrow> expand_result) \<Rightarrow> expandable option list \<Rightarrow> string \<times> string list \<Rightarrow> heap
     \<Rightarrow> expand_result" where
  "command_expression_loop ex [] st h = Some (Inr (glue_finish st), h)"
| "command_expression_loop ex (None # cs) st h = command_expression_loop ex cs (glue_null st) h"
| "command_expression_loop ex (Some pChild # cs) st h =
     (case ex pChild h of
        None \<Rightarrow> None
      | Some (Inl e, h1) \<Rightarrow> Some (Inl e, h1)
      | Some (Inr vSubTokens, h1) \<Rightarrow> command_expression_loop ex cs (glue_child vSubTokens st) h1)"

text \<open>\<^verbatim>\<open>shell_node_session_extractor::expand\<close>\<close>

definition extractor_expand :: "bool \<Rightarrow> string \<Rightarrow> string list" where
  "extractor_expand bSplit v = (if bSplit then split_string v else [v])"

text \<open>
  What \<^verbatim>\<open>shell_node_command::evaluate\<close> and \<^verbatim>\<open>shell_node_test::evaluate\<close> do with the result
  of \<^verbatim>\<open>run\<close>: a parser exception is reported and the status stays \<^verbatim>\<open>SHELL_SUCCESS\<close>.
\<close>

definition after_run :: "eval_result \<Rightarrow> eval_result" where
  "after_run r =
     (case r of
        None \<Rightarrow> None
      | Some (Inl (parser_exception oException), s2, h2) \<Rightarrow>
          Some (Inr SHELL_SUCCESS, s2\<lparr>m_nLastCommandResult := SHELL_SUCCESS\<rparr>,
                msg_error_syntax_error s2 oException h2)
      | Some (Inl e, s2, h2) \<Rightarrow> Some (Inl e, s2, h2)
      | Some (Inr nStatus, s2, h2) \<Rightarrow> Some (Inr nStatus, s2\<lparr>m_nLastCommandResult := nStatus\<rparr>, h2))"

text \<open>
  Evaluation, expansion and running a command. The first argument after the runtime is fuel:
  \<open>None\<close> means the fuel ran out (a \<^verbatim>\<open>while\<close> loop need not end). A derived session is
  dropped when its scope ends; the store it wrote to stays.
\<close>

fun evaluate :: "runtime \<Rightarrow> nat \<Rightarrow> evaluable \<Rightarrow> shell_session \<Rightarrow> heap \<Rightarrow> eval_result"
and expand :: "runtime \<Rightarrow> nat \<Rightarrow> expandable \<Rightarrow> bool \<Rightarrow> shell_session \<Rightarrow> heap \<Rightarrow> expand_result"
and run_command ::
  "runtime \<Rightarrow> nat \<Rightarrow> command \<Rightarrow> string list \<Rightarrow> shell_session \<Rightarrow> heap \<Rightarrow> eval_result"
where
  "evaluate rt 0 node s h = None"
| "evaluate rt (Suc n) (shell_node_null_command nPos) s h =
     Some (Inr SHELL_SUCCESS, s\<lparr>m_nLastCommandResult := SHELL_SUCCESS\<rparr>, h)"
| "evaluate rt (Suc n) (shell_node_command m_pCommand) s h =
     (case command_expression_loop (\<lambda>c k. expand rt n c True s k) m_pCommand ([], []) h of
        None \<Rightarrow> None
      | Some (Inl e, h1) \<Rightarrow> Some (Inl e, s, h1)
      | Some (Inr vTokens, h1) \<Rightarrow>
     (case vTokens of
        [] \<Rightarrow> Some (Inl (undefined_behaviour ''vTokens[0] read from an empty vector''), s, h1)
      | sName # vArgs \<Rightarrow>
     (case m_mCommands rt sName of
        None \<Rightarrow>
          Some (Inr SHELL_ERROR_COMMAND_NOT_FOUND, s, msg_error_command_not_found s sName h1)
      | Some pCommand \<Rightarrow> after_run (run_command rt n pCommand vArgs s h1))))"
| "evaluate rt (Suc n) (shell_node_command_block nPos m_vSubCommands) s h =
     (case block_loop (\<lambda>x t k. evaluate rt n x t k) m_vSubCommands s h of
        None \<Rightarrow> None
      | Some (Inl e, s1, h1) \<Rightarrow> Some (Inl e, s1, h1)
      | Some (Inr _, s1, h1) \<Rightarrow> Some (Inr (m_nLastCommandResult s1), s1, h1))"
| "evaluate rt (Suc n) (shell_node_command_block_subshell nPos m_vSubCommands) s h =
     (case subshell_loop (\<lambda>x t k. evaluate rt n x t k) m_vSubCommands s h of
        None \<Rightarrow> None
      | Some (Inl e, h1) \<Rightarrow> Some (Inl e, s, h1)
      | Some (Inr _, h1) \<Rightarrow> Some (Inr (m_nLastCommandResult s), s, h1))"
| "evaluate rt (Suc n) (shell_node_background nPos m_pCommand) s h =
     Some (Inr SHELL_SUCCESS, s, h)"
| "evaluate rt (Suc n) (shell_node_and nPos m_pLeft m_pRight) s h =
     (case m_pLeft of
        None \<Rightarrow> Some (Inl (undefined_behaviour ''null left operand''), s, h)
      | Some pLeft \<Rightarrow>
     (case evaluate rt n pLeft s h of
        None \<Rightarrow> None
      | Some (Inl e, s1, h1) \<Rightarrow> Some (Inl e, s1, h1)
      | Some (Inr nLeft, s1, h1) \<Rightarrow>
          if nLeft = SHELL_SUCCESS then
            (case m_pRight of
               None \<Rightarrow> Some (Inl (undefined_behaviour ''null right operand''), s1, h1)
             | Some pRight \<Rightarrow> evaluate rt n pRight s1 h1)
          else Some (Inr nLeft, s1, h1)))"
| "evaluate rt (Suc n) (shell_node_or nPos m_pLeft m_pRight) s h =
     (case m_pLeft of
        None \<Rightarrow> Some (Inl (undefined_behaviour ''null left operand''), s, h)
      | Some pLeft \<Rightarrow>
     (case evaluate rt n pLeft s h of
        None \<Rightarrow> None
      | Some (Inl e, s1, h1) \<Rightarrow> Some (Inl e, s1, h1)
      | Some (Inr nLeft, s1, h1) \<Rightarrow>
          if nLeft \<noteq> SHELL_SUCCESS then
            (case m_pRight of
               None \<Rightarrow> Some (Inl (undefined_behaviour ''null right operand''), s1, h1)
             | Some pRight \<Rightarrow> evaluate rt n pRight s1 h1)
          else Some (Inr nLeft, s1, h1)))"
| "evaluate rt (Suc n) (shell_node_pipe nPos m_pLeft m_pRight) s h =
     (case new_ostringstream h of (oStdOut, h0) \<Rightarrow>
     (case make_pipe_left s oStdOut h0 of (pSessionLeft, h1) \<Rightarrow>
     (case m_pLeft of
        None \<Rightarrow> Some (Inl (undefined_behaviour ''null left operand''), s, h1)
      | Some pLeft \<Rightarrow>
     (case evaluate rt n pLeft pSessionLeft h1 of
        None \<Rightarrow> None
      | Some (Inl e, _, h2) \<Rightarrow> Some (Inl e, s, h2)
      | Some (Inr _, _, h2) \<Rightarrow>
     (case new_istringstream (h_ostream h2 oStdOut) h2 of (oStdIn, h3) \<Rightarrow>
     (case make_pipe_right s oStdIn h3 of (pSessionRight, h4) \<Rightarrow>
     (case m_pRight of
        None \<Rightarrow> Some (Inl (undefined_behaviour ''null right operand''), s, h4)
      | Some pRight \<Rightarrow>
     (case evaluate rt n pRight pSessionRight h4 of
        None \<Rightarrow> None
      | Some (r, _, h5) \<Rightarrow> Some (r, s, h5)))))))))"
| "evaluate rt (Suc n) (shell_node_test nPos m_pTest) s h =
     (case expand rt n m_pTest True s h of
        None \<Rightarrow> None
      | Some (Inl e, h1) \<Rightarrow> Some (Inl e, s, h1)
      | Some (Inr vTokens, h1) \<Rightarrow>
          after_run (run_command rt n
            (case m_mCommands rt ''test'' of None \<Rightarrow> rt_command_test rt | Some pTest \<Rightarrow> pTest)
            vTokens s h1))"
| "evaluate rt (Suc n) (shell_node_if nPos m_pCondition m_pCaseIf m_pCaseElse) s h =
     (case evaluate rt n m_pCondition s h of
        None \<Rightarrow> None
      | Some (Inl e, s1, h1) \<Rightarrow> Some (Inl e, s1, h1)
      | Some (Inr nCondition, s1, h1) \<Rightarrow>
          if nCondition = SHELL_SUCCESS then evaluate rt n m_pCaseIf s1 h1
          else (case m_pCaseElse of
                  Some pCaseElse \<Rightarrow> evaluate rt n pCaseElse s1 h1
                | None \<Rightarrow> Some (Inr (m_nLastCommandResult s1), s1, h1)))"
| "evaluate rt (Suc n) (shell_node_continue nPos) s h = Some (Inl continue_signal, s, h)"
| "evaluate rt (Suc n) (shell_node_break nPos) s h = Some (Inl break_signal, s, h)"
| "evaluate rt (Suc n) (shell_node_for nPos m_sVariable m_pSequence m_pIterative) s h =
     (case expand rt n m_pSequence True s h of
        None \<Rightarrow> None
      | Some (Inl e, h1) \<Rightarrow> Some (Inl e, s, h1)
      | Some (Inr vSequence, h1) \<Rightarrow>
          for_loop (\<lambda>t k. evaluate rt n m_pIterative t k) m_sVariable vSequence s h1)"
| "evaluate rt (Suc n) (shell_node_while nPos m_pCondition m_pIterative) s h =
     (case evaluate rt n m_pCondition s h of
        None \<Rightarrow> None
      | Some (Inl e, s1, h1) \<Rightarrow> Some (Inl e, s1, h1)
      | Some (Inr nCondition, s1, h1) \<Rightarrow>
          if nCondition = SHELL_SUCCESS then
            (case evaluate rt n m_pIterative s1 h1 of
               None \<Rightarrow> None
             | Some (Inl continue_signal, s2, h2) \<Rightarrow>
                 evaluate rt n (shell_node_while nPos m_pCondition m_pIterative) s2 h2
             | Some (Inl break_signal, s2, h2) \<Rightarrow> Some (Inr (m_nLastCommandResult s2), s2, h2)
             | Some (Inl e, s2, h2) \<Rightarrow> Some (Inl e, s2, h2)
             | Some (Inr _, s2, h2) \<Rightarrow>
                 evaluate rt n (shell_node_while nPos m_pCondition m_pIterative) s2 h2)
          else Some (Inr (m_nLastCommandResult s1), s1, h1))"
| "evaluate rt (Suc n) (shell_node_until nPos m_pCondition m_pIterative) s h =
     (case evaluate rt n m_pCondition s h of
        None \<Rightarrow> None
      | Some (Inl e, s1, h1) \<Rightarrow> Some (Inl e, s1, h1)
      | Some (Inr nCondition, s1, h1) \<Rightarrow>
          if nCondition \<noteq> SHELL_SUCCESS then
            (case evaluate rt n m_pIterative s1 h1 of
               None \<Rightarrow> None
             | Some (Inl continue_signal, s2, h2) \<Rightarrow>
                 evaluate rt n (shell_node_until nPos m_pCondition m_pIterative) s2 h2
             | Some (Inl break_signal, s2, h2) \<Rightarrow> Some (Inr (m_nLastCommandResult s2), s2, h2)
             | Some (Inl e, s2, h2) \<Rightarrow> Some (Inl e, s2, h2)
             | Some (Inr _, s2, h2) \<Rightarrow>
                 evaluate rt n (shell_node_until nPos m_pCondition m_pIterative) s2 h2)
          else Some (Inr (m_nLastCommandResult s1), s1, h1))"
| "evaluate rt (Suc n) (shell_node_function nPos m_pName m_pBody) s h =
     (case expand rt n m_pName True s h of
        None \<Rightarrow> None
      | Some (Inl e, h1) \<Rightarrow> Some (Inl e, s, h1)
      | Some (Inr vName, h1) \<Rightarrow>
          if length vName \<noteq> 1 \<or> \<not> is_var (vName ! 0) then
            Some (Inr SHELL_ERROR_SYNTAX_ERROR_INVALID_FUNCTION_NAME, s,
                  msg_error_invalid_function_name s (join_spaces vName) h1)
          else
            (case set_func s (vName ! 0) m_pBody h1 of
               Inl _ \<Rightarrow> Some (Inl (undefined_behaviour ''null m_pVtable dereferenced''), s, h1)
             | Inr h2 \<Rightarrow> Some (Inr SHELL_SUCCESS, s, h2)))"
| "expand rt 0 node bSplit s h = None"
| "expand rt (Suc n) (shell_node_word nPos m_sText) bSplit s h = Some (Inr [m_sText], h)"
| "expand rt (Suc n) (shell_node_unicode nPos m_cCharacter) bSplit s h =
     Some (Inr [write_char32_t m_cCharacter], h)"
| "expand rt (Suc n) (shell_node_str_simple nPos m_vChildren) bSplit s h =
     (case str_loop (\<lambda>c k. expand rt n c False s k) m_vChildren h of
        None \<Rightarrow> None
      | Some (Inl e, h1) \<Rightarrow> Some (Inl e, h1)
      | Some (Inr oOstream, h1) \<Rightarrow> Some (Inr [oOstream], h1))"
| "expand rt (Suc n) (shell_node_str_double nPos m_vChildren) bSplit s h =
     (case str_loop (\<lambda>c k. expand rt n c False s k) m_vChildren h of
        None \<Rightarrow> None
      | Some (Inl e, h1) \<Rightarrow> Some (Inl e, h1)
      | Some (Inr oOstream, h1) \<Rightarrow> Some (Inr [oOstream], h1))"
| "expand rt (Suc n) (shell_node_str_back nPos m_pCommand) bSplit s h =
     (case new_ostringstream h of (oStdOut, h0) \<Rightarrow>
     (case make_subsession s (m_oStdIn s) oStdOut (m_oStdOut s) h0 of
        Inl _ \<Rightarrow> Some (Inl (undefined_behaviour ''null m_pVtable dereferenced''), h0)
      | Inr (pSubSession, h1) \<Rightarrow>
     (case evaluate rt n m_pCommand pSubSession h1 of
        None \<Rightarrow> None
      | Some (Inl e, _, h2) \<Rightarrow> Some (Inl e, h2)
      | Some (Inr _, _, h2) \<Rightarrow>
          Some (Inr (extractor_expand bSplit (h_ostream h2 oStdOut)), h2))))"
| "expand rt (Suc n) (shell_node_dollar_command nPos m_pCommand) bSplit s h =
     (case new_ostringstream h of (oStdOut, h0) \<Rightarrow>
     (case make_subsession s (m_oStdIn s) oStdOut (m_oStdErr s) h0 of
        Inl _ \<Rightarrow> Some (Inl (undefined_behaviour ''null m_pVtable dereferenced''), h0)
      | Inr (pSubSession, h1) \<Rightarrow>
     (case evaluate rt n m_pCommand pSubSession h1 of
        None \<Rightarrow> None
      | Some (Inl e, _, h2) \<Rightarrow> Some (Inl e, h2)
      | Some (Inr _, _, h2) \<Rightarrow>
          Some (Inr (extractor_expand bSplit (h_ostream h2 oStdOut)), h2))))"
| "expand rt (Suc n) (shell_node_arg nPos m_nArg) bSplit s h =
     Some (Inr (extractor_expand bSplit (get_arg s h m_nArg)), h)"
| "expand rt (Suc n) (shell_node_dollar_arg nPos m_nArg) bSplit s h =
     Some (Inr (extractor_expand bSplit (get_arg s h m_nArg)), h)"
| "expand rt (Suc n) (shell_node_variable nPos m_sVariable) bSplit s h =
     Some (Inr (extractor_expand bSplit (shell_node_variable_get_value m_sVariable s h)), h)"
| "expand rt (Suc n) (shell_node_dollar_variable nPos m_sVariable) bSplit s h =
     Some (Inr (extractor_expand bSplit (shell_node_dollar_variable_get_value m_sVariable s h)), h)"
| "expand rt (Suc n) (shell_node_dollar_special nPos m_cItem) bSplit s h =
     Some (Inr (extractor_expand bSplit
                  (shell_node_dollar_special_get_value (rt_pid rt) m_cItem s h)), h)"
| "expand rt (Suc n) (shell_node_command_expression m_vChildren) bSplit s h =
     command_expression_loop (\<lambda>c k. expand rt n c True s k) m_vChildren ([], []) h"
| "run_command rt 0 pCommand vArgs s h = None"
| "run_command rt (Suc n) command_echo vArgs s h = Some (command_echo_run vArgs s h)"
| "run_command rt (Suc n) command_eval vArgs s h =
     (case increase_shell_depth s of
        (False, s1) \<Rightarrow>
          Some (Inr SHELL_ERROR_MAX_DEPTH_REACHED, s1,
                write_stream (m_oStdErr s1) (''Maximum shell depth reached.'' @ [CHR 0x0A]) h)
      | (True, s1) \<Rightarrow>
     (case rt_parse rt (concat vArgs) of
        Inl oException \<Rightarrow> Some (Inl (parser_exception oException), s1, h)
      | Inr pMainNode \<Rightarrow>
     (case evaluate rt n pMainNode s1 h of
        None \<Rightarrow> None
      | Some (Inl e, s2, h2) \<Rightarrow> Some (Inl e, s2, h2)
      | Some (Inr nStatus, s2, h2) \<Rightarrow> Some (Inr nStatus, decrease_shell_depth s2, h2))))"
| "run_command rt (Suc n) command_fcall vArgs s h =
     (let h0 = h\<lparr>h_cout := h_cout h @ ''FCALL'' @ [CHR 0x0A]\<rparr> in
     (case vArgs of
        [] \<Rightarrow>
          Some (Inr (SHELL_CMD_ERROR 1), s,
                write_stream (m_oStdErr s)
                  (''fcall: takes >=1 parameters, but received 0.'' @ [CHR 0x0A]) h0)
      | sFunction # _ \<Rightarrow>
     (case get_func s h0 sFunction of
        Inl _ \<Rightarrow> Some (Inl (undefined_behaviour ''null m_pVtable dereferenced''), s, h0)
      | Inr None \<Rightarrow>
          Some (Inr (SHELL_CMD_ERROR 2), s,
                write_stream (m_oStdErr s)
                  (''fcall: '' @ sFunction @ '': function not found.'' @ [CHR 0x0A]) h0)
      | Inr (Some pFunc) \<Rightarrow>
     (case make_function_call s vArgs h0 of (pSession, h1) \<Rightarrow>
     (case evaluate rt n pFunc pSession
             (h1\<lparr>h_cout := h_cout h1 @ ''arg 1: '' @ get_arg pSession h1 1 @ [CHR 0x0A]\<rparr>) of
        None \<Rightarrow> None
      | Some (r, _, h2) \<Rightarrow> Some (r, s, h2))))))"
| "run_command rt (Suc n) (command_host f) vArgs s h = Some (f vArgs s h)"



text \<open>
  The helper \<^verbatim>\<open>eval\<close> of \<^verbatim>\<open>shell.cpp\<close>, which the three overloads of \<^verbatim>\<open>shell::run\<close> call on
  the text they were given. It parses and returns the evaluation of the tree; the
  \<^verbatim>\<open>try\<close> block that follows the \<^verbatim>\<open>return\<close> statement is never reached.
\<close>

definition shell_run :: "runtime \<Rightarrow> nat \<Rightarrow> string \<Rightarrow> shell_session \<Rightarrow> heap \<Rightarrow> eval_result" where
  "shell_run rt fuel sCommand s h =
     (case rt_parse rt sCommand of
        Inl oException \<Rightarrow> Some (Inl (parser_exception oException), s, h)
      | Inr pMainNode \<Rightarrow> evaluate rt fuel pMainNode s h)"

section \<open>Example programs and runtimes\<close>

text \<open>
  The exception the tokenizer throws on the text \<^verbatim>\<open>")"\<close>: an unexpected token at byte 0, and
  a runtime whose parser throws it there.
\<close>

definition unexpected_token_exception :: shell_parser_exception where
  "unexpected_token_exception =
     \<lparr>m_nStatus = SHELL_ERROR_SYNTAX_ERROR_UNEXPECTED_TOKEN, m_sCommand = '')'', m_nPos = 0,
      what = ''Unexpected token'' @ [CHR 0x0A] @ '')'' @ [CHR 0x0A] @ ''^~~~'' @ [CHR 0x0A]
             @ ''Code point: 0'' @ [CHR 0x0A] @ ''Byte: 0'' @ [CHR 0x0A]\<rparr>"

definition unexpected_token_runtime :: runtime where
  "unexpected_token_runtime =
     \<lparr>rt_parse = (\<lambda>sCommand. if sCommand = '')'' then Inl unexpected_token_exception
                                else Inr (shell_node_null_command 0)),
      m_mCommands = Map.empty, rt_command_test = command_echo, rt_pid = 0\<rparr>"




definition unknown_command :: evaluable where
  "unknown_command = shell_node_command [Some (shell_node_word 0 ''nope'')]"







section \<open>Variable lookup and the argument count\<close>

lemmas to_string_nat_eval =
  to_string_nat.simps [of "numeral n" for n] to_string_nat.simps [of 0]
  to_string_nat.simps [of 1] to_string_nat.simps [of "Suc 0"] digit_char_def

lemma to_string_nat_max: "to_string_nat 18446744073709551615 = ''18446744073709551615''"
  by (simp add: to_string_nat_eval)

lemma unat_size_t_minus_one: "unat (- 1 :: 64 word) = 18446744073709551615"
  by (simp add: unsigned_minus_1_eq_mask mask_eq_exp_minus_1)

text \<open>
  C7. A bare variable expansion (both node classes) yields the local value when the name is
  a local, otherwise the environment value when the name is in the environment, otherwise
  the empty string. Setting a local leaves every environment lookup of the session as it was
  and conversely, and a name bound to the empty string reads back exactly as a missing one.
\<close>

theorem variable_lookup_order:
  "shell_node_dollar_variable_get_value n s h =
     (case h_var h (m_pVar s) n of
        Some v \<Rightarrow> v
      | None \<Rightarrow> (case h_env h (m_pEnv s) n of Some v \<Rightarrow> v | None \<Rightarrow> ''''))
   \<and> shell_node_variable_get_value n s h = shell_node_dollar_variable_get_value n s h
   \<and> get_env s (set_var s x v h) n = get_env s h n
   \<and> has_env s (set_var s x v h) n = has_env s h n
   \<and> get_var s (set_env s x v h) n = get_var s h n
   \<and> has_var s (set_env s x v h) n = has_var s h n
   \<and> shell_node_dollar_variable_get_value n s (set_var s n v h) = v
   \<and> shell_node_dollar_variable_get_value n s (set_var s n '''' (set_env s n '''' h))
       = shell_node_dollar_variable_get_value n s
           (h\<lparr>h_var := (h_var h)(m_pVar s := Map.empty), h_env := (h_env h)(m_pEnv s := Map.empty)\<rparr>)"
  by (simp add: shell_node_dollar_variable_get_value_def shell_node_variable_get_value_def
      has_var_def has_env_def get_var_def get_env_def set_var_def set_env_def
      split: option.splits)

text \<open>
  C10. \<^verbatim>\<open>$#\<close> is the decimal rendering of the stored argument count minus one, computed in
  \<^verbatim>\<open>std::size_t\<close>; with no stored argument it is 18446744073709551615.
\<close>

theorem dollar_hash_wraps:
  "shell_node_dollar_special_get_value pid (CHR ''#'') s h
     = to_string_nat (unat ((of_nat (length (h_arg h (m_pArg s))) :: 64 word) - 1))
   \<and> (h_arg h (m_pArg s) = [] \<longrightarrow>
        shell_node_dollar_special_get_value pid (CHR ''#'') s h = ''18446744073709551615'')"
  by (simp add: shell_node_dollar_special_get_value_def to_string_size_t_def get_arg_size_def
      get_args_def to_string_nat_max unat_size_t_minus_one)

lemma host_session_simps:
  "host_session = \<lparr>m_pEnv = 3, m_pArg = 4, m_pVar = 5, m_pVtable = Some 6,
     m_nLastCommandResult = SHELL_SUCCESS, m_oStdIn = 0, m_oStdOut = 1, m_oStdErr = 2,
     m_nCurrentDepth = 0\<rparr>"
  "host_session_heap = \<lparr>h_env = (\<lambda>_. Map.empty)(3 := Map.empty), h_arg = (\<lambda>_. [])(4 := []),
     h_var = (\<lambda>_. Map.empty)(5 := Map.empty), h_vtable = (\<lambda>_. Map.empty)(6 := Map.empty),
     h_istream = (\<lambda>_. ''''), h_ostream = (\<lambda>_. ''''), h_next = 7, h_cout = ''''\<rparr>"
  by (simp_all add: host_session_def host_session_heap_def shell_session_new_def host_heap_def
      make_shared_env_def make_shared_arg_def make_shared_var_def make_shared_vtable_def
      Let_def eval_nat_numeral)

lemmas glue_defs = glue_null_def glue_child_def glue_finish_def

lemmas lookup_defs =
  extractor_expand_def split_string_def shell_node_dollar_variable_get_value_def
  shell_node_variable_get_value_def has_var_def has_env_def get_var_def get_env_def set_var_def

theorem dollar_hash_wraps_witness:
  "h_arg host_session_heap (m_pArg host_session) = []
   \<and> shell_node_dollar_special_get_value 0 (CHR ''#'') host_session host_session_heap
       = ''18446744073709551615''"
  using dollar_hash_wraps [of 0 host_session host_session_heap]
  by (simp add: host_session_simps unat_size_t_minus_one to_string_nat_max)

section \<open>Session derivation rules\<close>

lemmas session_defs =
  make_subsession_def make_function_call_def make_pipe_left_def make_pipe_right_def
  make_shared_env_def make_shared_arg_def make_shared_var_def make_shared_vtable_def
  session_allocated_def get_env_def set_env_def has_env_def get_var_def set_var_def has_var_def
  get_func_def set_func_def get_args_def get_arg_def

text \<open>
  For a session allocated in the store (one built by the four-argument constructor, or derived
  from such a session): a subshell session has its own environment, locals and function table,
  equal to the parent's at creation, and a later assignment through the subshell leaves what
  the parent reads unchanged; it holds the parent's argument pointer and the three streams the
  caller supplied. A function-call session holds the parent's environment and function-table
  pointers (an assignment through it is read back by the parent), a new empty locals table, a
  new argument list, and the parent's three streams. A pipe-left and a pipe-right session hold
  all four of the parent's pointers and the parent's streams except stdout, respectively
  stdin, which is the one supplied; neither changes the store.
\<close>

lemma session_derivation_table:
  assumes "session_allocated s h"
  shows "(case make_subsession s i out e h of
            Inl _ \<Rightarrow> False
          | Inr (c, h') \<Rightarrow>
              m_pEnv c \<noteq> m_pEnv s \<and> m_pVar c \<noteq> m_pVar s \<and> m_pVtable c \<noteq> m_pVtable s
            \<and> h_env h' (m_pEnv c) = h_env h (m_pEnv s)
            \<and> h_var h' (m_pVar c) = h_var h (m_pVar s)
            \<and> get_func c h' n = get_func s h n
            \<and> get_env s (set_env c x v h') n = get_env s h n
            \<and> get_var s (set_var c x v h') n = get_var s h n
            \<and> (case set_func c x f h' of
                  Inl _ \<Rightarrow> False
                | Inr h'' \<Rightarrow> get_func s h'' n = get_func s h n \<and> get_func c h'' x = Inr (Some f))
            \<and> m_pArg c = m_pArg s \<and> h_arg h' = h_arg h
            \<and> m_oStdIn c = i \<and> m_oStdOut c = out \<and> m_oStdErr c = e
            \<and> session_allocated c h')
       \<and> (let (c, h') = make_function_call s oArg h in
            m_pEnv c = m_pEnv s \<and> m_pVtable c = m_pVtable s
          \<and> h_env h' = h_env h \<and> h_vtable h' = h_vtable h
          \<and> get_env s (set_env c x v h') x = v
          \<and> (case set_func c x f h' of
                Inl _ \<Rightarrow> False
              | Inr h'' \<Rightarrow> get_func s h'' x = Inr (Some f))
          \<and> m_pVar c \<noteq> m_pVar s \<and> h_var h' (m_pVar c) = Map.empty
          \<and> get_var s (set_var c x v h') n = get_var s h n
          \<and> m_pArg c \<noteq> m_pArg s \<and> h_arg h' (m_pArg c) = oArg
          \<and> h_arg h' (m_pArg s) = h_arg h (m_pArg s)
          \<and> m_oStdIn c = m_oStdIn s \<and> m_oStdOut c = m_oStdOut s \<and> m_oStdErr c = m_oStdErr s
          \<and> session_allocated c h')
       \<and> (let (c, h') = make_pipe_left s out h in
            h' = h \<and> m_pEnv c = m_pEnv s \<and> m_pVar c = m_pVar s \<and> m_pArg c = m_pArg s
          \<and> m_pVtable c = m_pVtable s
          \<and> m_oStdIn c = m_oStdIn s \<and> m_oStdOut c = out \<and> m_oStdErr c = m_oStdErr s)
       \<and> (let (c, h') = make_pipe_right s i h in
            h' = h \<and> m_pEnv c = m_pEnv s \<and> m_pVar c = m_pVar s \<and> m_pArg c = m_pArg s
          \<and> m_pVtable c = m_pVtable s
          \<and> m_oStdIn c = i \<and> m_oStdOut c = m_oStdOut s \<and> m_oStdErr c = m_oStdErr s)"
  using assms by (auto simp: session_defs Let_def split: option.splits)

lemma session_derivation_table_host:
  "session_allocated host_session host_session_heap
   \<and> (case make_subsession host_session 0 1 2 host_session_heap of
        Inl _ \<Rightarrow> False
      | Inr (c, h') \<Rightarrow>
         m_pEnv c \<noteq> m_pEnv host_session
       \<and> get_env host_session (set_env c ''x'' ''1'' h') ''x'' = ''''
       \<and> m_pArg c = m_pArg host_session)
   \<and> (let (c, h') = make_function_call host_session [''f'', ''a''] host_session_heap in
         get_env host_session (set_env c ''x'' ''1'' h') ''x'' = ''1''
       \<and> get_var host_session (set_var c ''x'' ''1'' h') ''x'' = ''''
       \<and> h_arg h' (m_pArg c) = [''f'', ''a''])"
  by (simp add: session_defs host_session_simps Let_def)

text \<open>
  C4. A session built by the public constructor that takes an environment and an argument
  list holds a null function-table pointer. A subshell session cannot be derived from it:
  \<^verbatim>\<open>make_subsession\<close> dereferences the null pointer, whatever streams it is given, and so does
  the evaluation of a parenthesized block, of \<^verbatim>\<open>$(...)\<close> and of a backquoted command in that
  session. The function-call and pipe derivations hand the null pointer on. (For a session of
  the four-argument constructor the table of derivations holds: \<open>session_derivation_table\<close>.)
\<close>

theorem make_subsession_null_vtable:
  "m_pVtable (fst (shell_session_new_env_arg i out e oEnv oArg h)) = None
   \<and> make_subsession (fst (shell_session_new_env_arg i out e oEnv oArg h)) i' out' e'
         (snd (shell_session_new_env_arg i out e oEnv oArg h))
       = Inl null_pointer_dereference
   \<and> evaluate rt (Suc n) (shell_node_command_block_subshell p (x # xs))
         (fst (shell_session_new_env_arg i out e oEnv oArg h))
         (snd (shell_session_new_env_arg i out e oEnv oArg h))
       = Some (Inl (undefined_behaviour ''null m_pVtable dereferenced''),
               fst (shell_session_new_env_arg i out e oEnv oArg h),
               snd (shell_session_new_env_arg i out e oEnv oArg h))
   \<and> (\<exists>h'. expand rt (Suc n) (shell_node_dollar_command p c) bSplit
               (fst (shell_session_new_env_arg i out e oEnv oArg h))
               (snd (shell_session_new_env_arg i out e oEnv oArg h))
             = Some (Inl (undefined_behaviour ''null m_pVtable dereferenced''), h'))
   \<and> (\<exists>h'. expand rt (Suc n) (shell_node_str_back p c) bSplit
               (fst (shell_session_new_env_arg i out e oEnv oArg h))
               (snd (shell_session_new_env_arg i out e oEnv oArg h))
             = Some (Inl (undefined_behaviour ''null m_pVtable dereferenced''), h'))
   \<and> m_pVtable (fst (make_function_call (fst (shell_session_new_env_arg i out e oEnv oArg h)) oArg'
         (snd (shell_session_new_env_arg i out e oEnv oArg h)))) = None
   \<and> m_pVtable (fst (make_pipe_left (fst (shell_session_new_env_arg i out e oEnv oArg h)) out'
         (snd (shell_session_new_env_arg i out e oEnv oArg h)))) = None
   \<and> m_pVtable (fst (make_pipe_right (fst (shell_session_new_env_arg i out e oEnv oArg h)) i'
         (snd (shell_session_new_env_arg i out e oEnv oArg h)))) = None"
  by (simp add: shell_session_new_env_arg_def session_defs new_ostringstream_def Let_def split_def)

section \<open>Combining operators\<close>

text \<open>
  C1. At the left operand \<open>a || b\<close> (an operator of priority 3), the operator type
  \<^verbatim>\<open>SNT_AND\<close> (priority 4) and a command \<open>c\<close> as right operand, \<^verbatim>\<open>make\<close> (here
  \<open>shell_node_operator_make\<close>, since a record already owns the name) returns the node
  \<open>a || c\<close>: after the rotation the right operand is stored in the rotated left node's right
  slot, which held the new \<open>&&\<close> node, so that node and \<open>b\<close> are released. The tree
  \<open>a || (b && c)\<close> is not what is returned.
\<close>

theorem make_rotation_drops_central:
  "shell_node_operator_make SNT_AND p
     (Some (shell_node_or q (Some (shell_node_command a)) (Some (shell_node_command b))))
     (Some (shell_node_command c))
   = Inr (shell_node_or q (Some (shell_node_command a)) (Some (shell_node_command c)))
   \<and> shell_node_operator_make SNT_OR q (Some (shell_node_command a)) (Some (shell_node_command b))
   = Inr (shell_node_or q (Some (shell_node_command a)) (Some (shell_node_command b)))
   \<and> shell_node_operator_make SNT_AND p
     (Some (shell_node_or q (Some (shell_node_command a)) (Some (shell_node_command b))))
     (Some (shell_node_command c))
   \<noteq> Inr (shell_node_or q (Some (shell_node_command a))
          (Some (shell_node_and p (Some (shell_node_command b)) (Some (shell_node_command c)))))"
  by (simp add: shell_node_operator_make_def make_left_phase_def make_right_phase_def
      PRIORITY_AND_def PRIORITY_OR_def)

section \<open>The diagnostic message\<close>

text \<open>
  C6. The source \<^verbatim>\<open>"a\n)"\<close> fails in the tokenizer with \<^verbatim>\<open>UNEXPECTED_TOKEN\<close> at byte 2, the
  first byte of the second line. The extracted line is \<^verbatim>\<open>")"\<close>, where the failing byte is at
  code-point column 0 (\<^verbatim>\<open>getCodePointAtByte\<close> of the line at offset 0), but the message has two
  spaces before the caret: the column is computed from the offset in the whole text.
\<close>

theorem makeMessage_second_line:
  "makeMessage SHELL_ERROR_SYNTAX_ERROR_UNEXPECTED_TOKEN [CHR ''a'', CHR 0x0A, CHR '')''] 2
     = Inr (''Unexpected token'' @ [CHR 0x0A] @ '')'' @ [CHR 0x0A] @ ''  ^~~~'' @ [CHR 0x0A]
            @ ''Code point: 2'' @ [CHR 0x0A] @ ''Byte: 2'' @ [CHR 0x0A])
   \<and> getLineFromPosition [CHR ''a'', CHR 0x0A, CHR '')''] 2 = '')''
   \<and> getCodePointAtByte '')'' (2 - 2) = Inr 0"
  by code_simp

section \<open>The two depth guards\<close>



































section \<open>Expansion of a command expression\<close>

text \<open>
  C2. With sub-token lists \<open>[a]\<close>, \<open>[x, y, z]\<close> and \<open>[b]\<close> (the expression \<^verbatim>\<open>a${multi}b\<close> where
  \<open>multi\<close> holds \<^verbatim>\<open>"x y z"\<close>) the tokens produced are \<open>a\<close>, \<open>x\<close>, \<open>y\<close>, \<open>zb\<close>: the single token
  \<open>a\<close> is pushed as a token of its own as soon as it is appended to the buffer, so the first
  produced word \<open>x\<close> is not glued to it. Likewise \<open>[a]\<close> followed by \<open>[x]\<close> gives \<open>a\<close>, \<open>x\<close>.
  In general a child with the single sub-token \<open>t\<close> pushes the buffer followed by \<open>t\<close> and
  leaves the buffer empty.
\<close>

theorem command_expression_pushes_single_token:
  "glue_child [t] (oWord, vTokens) = ([], vTokens @ [oWord @ t])
   \<and> glue [Some [''a''], Some [''x'', ''y'', ''z''], Some [''b'']] ([], []) = [''a'', ''x'', ''y'', ''zb'']
   \<and> glue [Some [''a''], Some [''x'']] ([], []) = [''a'', ''x'']
   \<and> expand rt (Suc (Suc n))
         (shell_node_command_expression
            [Some (shell_node_word 0 ''a''), Some (shell_node_dollar_variable 1 ''multi''),
             Some (shell_node_word 2 ''b'')])
         bSplit host_session (set_var host_session ''multi'' ''x y z'' host_session_heap)
       = Some (Inr [''a'', ''x'', ''y'', ''zb''],
               set_var host_session ''multi'' ''x y z'' host_session_heap)"
  by (simp add: glue_defs lookup_defs)

section \<open>Evaluating a command node\<close>

text \<open>
  C9. The command \<^verbatim>\<open>$x\<close> in a session where \<open>x\<close> is neither a local nor an environment
  variable: the expansion with splitting of its command expression is the empty list, and
  \<^verbatim>\<open>evaluate\<close> then reads \<^verbatim>\<open>vTokens[0]\<close> of an empty vector. This holds for both node classes,
  the one of \<^verbatim>\<open>${x}\<close> and the one of a bare \<^verbatim>\<open>$x\<close>.
\<close>

theorem command_of_unset_variable_reads_empty_vector:
  "expand rt (Suc (Suc n)) (shell_node_command_expression [Some (shell_node_dollar_variable p ''x'')])
     True host_session host_session_heap
     = Some (Inr [], host_session_heap)
   \<and> evaluate rt (Suc (Suc n)) (shell_node_command [Some (shell_node_dollar_variable p ''x'')])
       host_session host_session_heap
     = Some (Inl (undefined_behaviour ''vTokens[0] read from an empty vector''),
             host_session, host_session_heap)
   \<and> expand rt (Suc (Suc n)) (shell_node_command_expression [Some (shell_node_variable p ''x'')])
       True host_session host_session_heap
     = Some (Inr [], host_session_heap)
   \<and> evaluate rt (Suc (Suc n)) (shell_node_command [Some (shell_node_variable p ''x'')])
       host_session host_session_heap
     = Some (Inl (undefined_behaviour ''vTokens[0] read from an empty vector''),
             host_session, host_session_heap)"
  by (simp add: glue_defs lookup_defs host_session_simps)

section \<open>The boundary of \<^verbatim>\<open>run\<close>\<close>

text \<open>
  C3. When the tokenizer or the parser throws on the text, \<^verbatim>\<open>run\<close> ends with that exception:
  it is not caught, no status is returned, and the store is as before, so nothing was written
  to the session's stderr through \<^verbatim>\<open>msg_error_syntax_error\<close>.
\<close>

theorem shell_run_propagates_parser_exception:
  "rt_parse rt sCommand = Inl oException \<Longrightarrow>
   shell_run rt fuel sCommand s h = Some (Inl (parser_exception oException), s, h)"
  by (simp add: shell_run_def)

text \<open>An instance: the text \<^verbatim>\<open>")"\<close>, on which the constructor builds that exception.\<close>

lemma unexpected_token_exception_new:
  "shell_parser_exception_new SHELL_ERROR_SYNTAX_ERROR_UNEXPECTED_TOKEN '')'' 0
     = Inr unexpected_token_exception"
  unfolding unexpected_token_exception_def by code_simp

theorem shell_run_propagates_parser_exception_witness:
  "rt_parse unexpected_token_runtime '')'' = Inl unexpected_token_exception
   \<and> shell_run unexpected_token_runtime 1 '')'' host_session host_session_heap
       = Some (Inl (parser_exception unexpected_token_exception), host_session, host_session_heap)"
  using shell_run_propagates_parser_exception
    [of unexpected_token_runtime "'')''" unexpected_token_exception 1
        host_session host_session_heap]
  by (simp add: unexpected_token_runtime_def)

section \<open>Loops and control-flow signals\<close>








end
